theory Spec2Isabelle
  imports Complex_Main
begin

section \<open>Python values, exceptions and arrays\<close>

text \<open>
  The solvers of \<^verbatim>\<open>SciComp/ivp.py\<close> and \<^verbatim>\<open>SciComp/_pde_solvers.py\<close> compute with
  numpy floats. The embedding uses \<^typ>\<open>real\<close> for every float: rounding is outside the
  model, everything else (the validation order, the loops, the clamp of the step size, the
  exceptions) follows the source line by line.

  An exception is a value of \<open>error\<close>; the message of the source is kept without its
  formatted arguments. The error of a failed convergence check carries the residual, \<open>X0\<close>
  and \<open>T\<close> its message reports.
\<close>

type_synonym vec = "real list"

datatype error =
    TypeError string
  | ValueError string
  | FunctionError string
  | InputError string
  | IndexError string
  | LinAlgError string
  | NotConverged vec vec real

text \<open>
  Scalars as Python passes them: a plain \<^verbatim>\<open>int\<close>, a plain \<^verbatim>\<open>float\<close>, a numpy scalar
  (numeric, but its \<^verbatim>\<open>type()\<close> is neither \<^verbatim>\<open>float\<close> nor \<^verbatim>\<open>int\<close>), \<^verbatim>\<open>None\<close>, or a
  non-numeric object such as a string.
\<close>

datatype pynum = PyInt int | PyFloat real | NpFloat real

datatype pyval = PyNone | Num pynum | PyStr string

fun num :: "pynum \<Rightarrow> real" where
  "num (PyInt i) = of_int i"
| "num (PyFloat x) = x"
| "num (NpFloat x) = x"

fun is_float_or_int :: "pynum \<Rightarrow> bool" where
  "is_float_or_int (PyInt i) = True"
| "is_float_or_int (PyFloat x) = True"
| "is_float_or_int (NpFloat x) = False"

text \<open>A sequence of floats is a Python list or a one-dimensional numpy array.\<close>

datatype pyseq = PyList vec | NdArray vec

fun elems :: "pyseq \<Rightarrow> vec" where
  "elems (PyList xs) = xs"
| "elems (NdArray xs) = xs"

fun is_ndarray :: "pyseq \<Rightarrow> bool" where
  "is_ndarray (PyList xs) = False"
| "is_ndarray (NdArray xs) = True"

text \<open>\<^verbatim>\<open>s[:-1]\<close> keeps the type of the sequence.\<close>

fun all_but_last :: "pyseq \<Rightarrow> pyseq" where
  "all_but_last (PyList xs) = PyList (butlast xs)"
| "all_but_last (NdArray xs) = NdArray (butlast xs)"

text \<open>
  The optional extra arguments \<^verbatim>\<open>args\<close>: absent, a tuple, or an object that cannot be
  unpacked. A vector field is called as \<^verbatim>\<open>fun(t, y, *args)\<close> and may raise.
\<close>

datatype pyargs = NoArgs | ArgsTuple "real list" | NotIterable

type_synonym ode_fun = "real \<Rightarrow> vec \<Rightarrow> real list \<Rightarrow> error + vec"
type_synonym vfield = "real \<Rightarrow> vec \<Rightarrow> error + vec"
type_synonym step_fun = "vfield \<Rightarrow> real \<Rightarrow> vec \<Rightarrow> real \<Rightarrow> error + real \<times> vec"

section \<open>Step functions\<close>

text \<open>
  Modelled from the spec: the module \<^verbatim>\<open>SciComp/_ode_solvers.py\<close> (\<^verbatim>\<open>euler_step\<close>,
  \<^verbatim>\<open>heun_step\<close>, \<^verbatim>\<open>rk4_step\<close>) is not among the sources. Section 4.1 of the spec gives
  the contract \<open>(f, t, y, h) \<rightarrow> (t + h, y_next)\<close> and the three update formulas; \<open>f\<close> returns
  an array of the shape of \<open>y\<close>, so the vector operations are elementwise. An exception of
  \<open>f\<close> leaves the step.
\<close>

definition axpy :: "real \<Rightarrow> vec \<Rightarrow> vec \<Rightarrow> vec" where
  "axpy h k y = map2 (\<lambda>yi ki. yi + h * ki) y k"

definition euler_step :: step_fun where
  "euler_step f t y h =
     (case f t y of Inl e \<Rightarrow> Inl e
      | Inr k \<Rightarrow> Inr (t + h, axpy h k y))"

definition heun_step :: step_fun where
  "heun_step f t y h =
     (case f t y of Inl e \<Rightarrow> Inl e
      | Inr k1 \<Rightarrow>
     (case f (t + h) (axpy h k1 y) of Inl e \<Rightarrow> Inl e
      | Inr k2 \<Rightarrow> Inr (t + h, axpy (h / 2) (map2 (+) k1 k2) y)))"

definition rk4_step :: step_fun where
  "rk4_step f t y h =
     (case f t y of Inl e \<Rightarrow> Inl e
      | Inr k1 \<Rightarrow>
     (case f (t + h / 2) (axpy (h / 2) k1 y) of Inl e \<Rightarrow> Inl e
      | Inr k2 \<Rightarrow>
     (case f (t + h / 2) (axpy (h / 2) k2 y) of Inl e \<Rightarrow> Inl e
      | Inr k3 \<Rightarrow>
     (case f (t + h) (axpy h k3 y) of Inl e \<Rightarrow> Inl e
      | Inr k4 \<Rightarrow>
          Inr (t + h,
               axpy (h / 6)
                 (map2 (+) (map2 (+) k1 (map ((*) 2) k2)) (map2 (+) (map ((*) 2) k3) k4)) y)))))"

text \<open>
  A function object is identified by the function it is; \<^verbatim>\<open>__name__\<close> is the name of its
  \<^verbatim>\<open>def\<close>. Python's \<^verbatim>\<open>==\<close> between a function object and a string is the equality of
  \<open>pyobj\<close>: two objects of different kinds are never equal.
\<close>

datatype step_id = Euler_step | RK4_step | Heun_step

datatype pyobj = Fn step_id | Str string

fun call_step :: "step_id \<Rightarrow> step_fun" where
  "call_step Euler_step = euler_step"
| "call_step RK4_step = rk4_step"
| "call_step Heun_step = heun_step"

fun name_of :: "step_id \<Rightarrow> string" where
  "name_of Euler_step = ''euler_step''"
| "name_of RK4_step = ''rk4_step''"
| "name_of Heun_step = ''heun_step''"

text \<open>\<^verbatim>\<open>METHODS = {'Euler': euler_step, 'RK4': rk4_step, 'Heun': heun_step}\<close>\<close>

definition METHODS :: "string \<rightharpoonup> step_id" where
  "METHODS = [''Euler'' \<mapsto> Euler_step, ''RK4'' \<mapsto> RK4_step, ''Heun'' \<mapsto> Heun_step]"

section \<open>The IVP driver \<open>solve_ode\<close>\<close>

text \<open>
  Lines 63-74 of \<^verbatim>\<open>ivp.py\<close>: \<^verbatim>\<open>args\<close> is unpacked and bound into \<^verbatim>\<open>fun\<close>.
\<close>

definition bind_args :: "ode_fun \<Rightarrow> pyargs \<Rightarrow> error + vfield" where
  "bind_args fn args =
     (case args of
        NoArgs \<Rightarrow> Inr (\<lambda>t x. fn t x [])
      | NotIterable \<Rightarrow> Inl (TypeError ''Supplied args cannot be unpacked.'')
      | ArgsTuple as \<Rightarrow> Inr (\<lambda>t x. fn t x as))"

text \<open>
  Lines 104-116: the checks of \<^verbatim>\<open>tf\<close>. They run after \<^verbatim>\<open>method\<close> has been rebound to
  the step function \<^verbatim>\<open>METHODS[method]\<close>, so the guard of the warning compares that function
  object with the string \<^verbatim>\<open>rk4_step.__name__\<close>. The result is the list of warnings
  emitted. (The message of the warning formats a name \<^verbatim>\<open>h\<close> that \<^verbatim>\<open>ivp.py\<close> does not
  bind itself; the model lets the branch emit the warning.)
\<close>

definition check_tf :: "pyval \<Rightarrow> pynum \<Rightarrow> step_id \<Rightarrow> error + string list" where
  "check_tf tf t0 method =
     (case tf of
        PyNone \<Rightarrow> Inr []
      | PyStr s \<Rightarrow> Inl (ValueError ''tf must be a float or int.'')
      | Num v \<Rightarrow>
          if num v \<le> num t0 then Inl (ValueError ''tf must be greater than t0.'')
          else if num v < 0.001 \<and> Fn method = Str (name_of RK4_step)
          then Inr [''A step size of less than 0.001 is not recommended for the RK4 method.'']
          else Inr [])"

text \<open>Lines 118-123: the checks of \<^verbatim>\<open>n_max\<close>.\<close>

definition check_n_max :: "pyval \<Rightarrow> error + unit" where
  "check_n_max n_max =
     (case n_max of
        PyNone \<Rightarrow> Inr ()
      | Num (PyInt n) \<Rightarrow>
          if n \<le> 0 then Inl (ValueError ''n_max must be greater than 0.'') else Inr ()
      | _ \<Rightarrow> Inl (ValueError ''n_max must be an int.''))"

text \<open>Lines 126-129: the checks of \<^verbatim>\<open>deltat_max\<close>; the result is the step size.\<close>

definition check_deltat_max :: "pyval \<Rightarrow> error + real" where
  "check_deltat_max deltat_max =
     (case deltat_max of
        Num v \<Rightarrow>
          if \<not> is_float_or_int v then Inl (ValueError ''deltat_max must be a float or int.'')
          else if num v \<le> 0 then Inl (ValueError ''deltat_max must be greater than 0.'')
          else Inr (num v)
      | _ \<Rightarrow> Inl (ValueError ''deltat_max must be a float or int.''))"

text \<open>
  Lines 137-145: the stepping loop. Its state is \<open>t\<close>, \<open>y\<close>, the two arrays, the step
  counter and the current \<open>deltat_max\<close>. Nothing bounds the number of iterations for an
  arbitrary step function, so the loop is a partial function: \<open>None\<close> is a run that never
  ends, \<open>Some (Inl e)\<close> an exception of the step, \<open>Some (Inr (t_array, y_array))\<close> the
  normal exit.
\<close>

partial_function (option) solve_loop ::
  "step_fun \<Rightarrow> vfield \<Rightarrow> real option \<Rightarrow> int option \<Rightarrow> real \<Rightarrow> vec \<Rightarrow> real list \<Rightarrow> vec list
     \<Rightarrow> int \<Rightarrow> real \<Rightarrow> (error + real list \<times> vec list) option"
where
  "solve_loop method fn tf n_max t y t_array y_array step deltat_max =
     (if (case tf of None \<Rightarrow> True | Some T \<Rightarrow> t < T) \<and>
         (case n_max of None \<Rightarrow> True | Some n \<Rightarrow> step < n)
      then (case method fn t y deltat_max of
              Inl e \<Rightarrow> Some (Inl e)
            | Inr (t', y') \<Rightarrow>
                solve_loop method fn tf n_max t' y' (t_array @ [t']) (y_array @ [y']) (step + 1)
                  (case tf of
                     None \<Rightarrow> deltat_max
                   | Some T \<Rightarrow> if t' + deltat_max > T then T - t' else deltat_max))
      else Some (Inr (t_array, y_array)))"

fun bound_of_tf :: "pyval \<Rightarrow> real option" where
  "bound_of_tf (Num v) = Some (num v)"
| "bound_of_tf _ = None"

fun bound_of_n_max :: "pyval \<Rightarrow> int option" where
  "bound_of_n_max (Num (PyInt n)) = Some n"
| "bound_of_n_max _ = None"

text \<open>
  \<^verbatim>\<open>solve_ode(fun, t0, y0, tf, n_max, method, deltat_max, args)\<close>, the checks in the order
  of the source. The result holds the warnings emitted and the two arrays returned. A
  vector field of type \<open>ode_fun\<close> returns an array whenever it returns, so the check of
  line 88 (a result that is not an array) has no branch here.
\<close>

definition solve_ode ::
  "ode_fun \<Rightarrow> pynum \<Rightarrow> pyseq \<Rightarrow> pyval \<Rightarrow> pyval \<Rightarrow> string \<Rightarrow> pyval \<Rightarrow> pyargs
     \<Rightarrow> (error + string list \<times> real list \<times> vec list) option"
where
  "solve_ode fn t0 y0 tf n_max method deltat_max args =
     (case bind_args fn args of
        Inl e \<Rightarrow> Some (Inl e)
      | Inr f \<Rightarrow>
     (case f (num t0) (elems y0) of
        Inl e \<Rightarrow> Some (Inl (FunctionError ''ODE function must be of the form f(t, y).''))
      | Inr array \<Rightarrow>
          if \<not> is_float_or_int t0
          then Some (Inl (ValueError ''Initial value t0 must be a float or int.''))
          else if \<not> is_ndarray y0
          then Some (Inl (InputError ''Initial value y0 must a numpy array.''))
          else if length (elems y0) \<noteq> length array
          then Some (Inl (FunctionError
                 ''ODE function must return a numpy array of the same shape as y0.''))
          else
     (case METHODS method of
        None \<Rightarrow> Some (Inl (ValueError ''Invalid method.''))
      | Some m \<Rightarrow>
          if tf = PyNone \<and> n_max = PyNone
          then Some (Inl (ValueError ''Either tf or n_max must be given.''))
          else
     (case check_tf tf t0 m of
        Inl e \<Rightarrow> Some (Inl e)
      | Inr warned \<Rightarrow>
     (case check_n_max n_max of
        Inl e \<Rightarrow> Some (Inl e)
      | Inr u \<Rightarrow>
     (case check_deltat_max deltat_max of
        Inl e \<Rightarrow> Some (Inl e)
      | Inr h \<Rightarrow>
     (case solve_loop (call_step m) f (bound_of_tf tf) (bound_of_n_max n_max)
             (num t0) (elems y0) [num t0] [elems y0] 0 h of
        None \<Rightarrow> None
      | Some (Inl e) \<Rightarrow> Some (Inl e)
      | Some (Inr (t_array, y_array)) \<Rightarrow> Some (Inr (warned, t_array, y_array)))))))))"

text \<open>
  The loop condition of line 137 and the contract of a step function (section 3 of the
  spec: a step called with step size \<open>h\<close> returns time \<open>t + h\<close>), as predicates for the
  statements about the loop.
\<close>

definition loop_cond :: "real option \<Rightarrow> int option \<Rightarrow> real \<Rightarrow> int \<Rightarrow> bool" where
  "loop_cond tf n_max t step =
     ((case tf of None \<Rightarrow> True | Some T \<Rightarrow> t < T) \<and>
      (case n_max of None \<Rightarrow> True | Some n \<Rightarrow> step < n))"

definition step_contract :: "step_fun \<Rightarrow> vfield \<Rightarrow> bool" where
  "step_contract method fn = (\<forall>t y h t' y'. method fn t y h = Inr (t', y') \<longrightarrow> t' = t + h)"

section \<open>Loops over a range, indexing, numpy operations\<close>

text \<open>
  \<^verbatim>\<open>for i in range(a, b): body\<close> over a state \<open>s\<close>; an exception of the body leaves the
  loop. \<open>for_iter lo k\<close> runs the first \<open>k\<close> iterations, \<open>i = lo, ..., lo + k - 1\<close>.
\<close>

primrec for_iter :: "nat \<Rightarrow> nat \<Rightarrow> (nat \<Rightarrow> 's \<Rightarrow> error + 's) \<Rightarrow> 's \<Rightarrow> error + 's" where
  "for_iter lo 0 body s = Inr s"
| "for_iter lo (Suc k) body s =
     (case for_iter lo k body s of Inl e \<Rightarrow> Inl e | Inr s' \<Rightarrow> body (lo + k) s')"

definition for_range :: "nat \<Rightarrow> nat \<Rightarrow> (nat \<Rightarrow> 's \<Rightarrow> error + 's) \<Rightarrow> 's \<Rightarrow> error + 's" where
  "for_range a b body s = for_iter a (b - a) body s"

text \<open>Python indexing into an axis of size \<open>n\<close>: negative indices count from the end.\<close>

definition py_index :: "nat \<Rightarrow> int \<Rightarrow> error + nat" where
  "py_index n i =
     (let j = (if i < 0 then int n + i else i)
      in if 0 \<le> j \<and> j < int n then Inr (nat j) else Inl (IndexError ''index out of bounds''))"

definition item :: "'a list \<Rightarrow> int \<Rightarrow> error + 'a" where
  "item xs i = (case py_index (length xs) i of Inl e \<Rightarrow> Inl e | Inr j \<Rightarrow> Inr (xs ! j))"

text \<open>\<^verbatim>\<open>y[-1, i]\<close> for the array of states \<open>y\<close> (one row per time).\<close>

definition item2_last :: "vec list \<Rightarrow> nat \<Rightarrow> error + real" where
  "item2_last y i = (case item y (- 1) of Inl e \<Rightarrow> Inl e | Inr row \<Rightarrow> item row (int i))"

text \<open>
  Assignment into a slice of \<open>n\<close> entries broadcasts: a value of the same length is stored
  as it is, a value of length one is repeated, any other length raises.
\<close>

definition broadcast_to :: "nat \<Rightarrow> vec \<Rightarrow> error + vec" where
  "broadcast_to n v =
     (if length v = n then Inr v
      else if length v = 1 then Inr (replicate n (hd v))
      else Inl (ValueError ''could not broadcast input array''))"

text \<open>Elementwise \<^verbatim>\<open>a + b\<close> of two one-dimensional arrays, with the same broadcasting.\<close>

definition np_add :: "vec \<Rightarrow> vec \<Rightarrow> error + vec" where
  "np_add a b =
     (if length a = length b then Inr (map2 (+) a b)
      else if length a = 1 then Inr (map ((+) (hd a)) b)
      else if length b = 1 then Inr (map (\<lambda>x. x + hd b) a)
      else Inl (ValueError ''operands could not be broadcast together''))"

text \<open>\<^verbatim>\<open>np.allclose(a, b, atol=atol)\<close>, with the default \<^verbatim>\<open>rtol = 1e-05\<close>.\<close>

definition allclose :: "vec \<Rightarrow> vec \<Rightarrow> real \<Rightarrow> bool" where
  "allclose a b atol = list_all2 (\<lambda>x y. \<bar>x - y\<bar> \<le> atol + (1 / 100000) * \<bar>y\<bar>) a b"

text \<open>
  Matrices are lists of rows. \<^verbatim>\<open>A @ u\<close> raises on a dimension mismatch; \<^verbatim>\<open>I - M\<close> is
  taken for two matrices of one shape (a difference of shapes raises here; numpy's
  broadcasting of a 1 x 1 operand is not modelled).
\<close>

type_synonym mat = "vec list"

definition matmul_vec :: "mat \<Rightarrow> vec \<Rightarrow> error + vec" where
  "matmul_vec A u =
     (if list_all (\<lambda>row. length row = length u) A
      then Inr (map (\<lambda>row. sum_list (map2 (*) row u)) A)
      else Inl (ValueError ''matmul: dimension mismatch''))"

definition eye :: "nat \<Rightarrow> mat" where
  "eye n = map (\<lambda>i. map (\<lambda>j. if i = j then 1 else 0) [0..<n]) [0..<n]"

definition mat_scale :: "real \<Rightarrow> mat \<Rightarrow> mat" where
  "mat_scale c A = map (map ((*) c)) A"

definition mat_sub :: "mat \<Rightarrow> mat \<Rightarrow> error + mat" where
  "mat_sub A B =
     (if list_all2 (\<lambda>r s. length r = length s) A B
      then Inr (map2 (map2 (-)) A B)
      else Inl (ValueError ''operands could not be broadcast together''))"

text \<open>
  The state-by-time buffer \<open>u\<close> of the PDE steppers is kept column by column:
  \<open>u ! ti ! xi\<close> is \<^verbatim>\<open>u[xi, ti]\<close>, and \<open>u ! ti\<close> is the column \<^verbatim>\<open>u[:, ti]\<close>. \<open>nx\<close> is the
  number of rows.
\<close>

definition zeros :: "nat \<Rightarrow> nat \<Rightarrow> vec list" where
  "zeros nx nt = replicate nt (replicate nx 0)"

text \<open>\<^verbatim>\<open>u[:, k] = v\<close>\<close>

definition set_col :: "nat \<Rightarrow> vec list \<Rightarrow> int \<Rightarrow> vec \<Rightarrow> error + vec list" where
  "set_col nx u k v =
     (case py_index (length u) k of Inl e \<Rightarrow> Inl e
      | Inr j \<Rightarrow>
     (case broadcast_to nx v of Inl e \<Rightarrow> Inl e
      | Inr v' \<Rightarrow> Inr (u[j := v'])))"

text \<open>\<^verbatim>\<open>u[i, :] = c\<close> for a scalar \<open>c\<close>\<close>

definition set_row :: "nat \<Rightarrow> vec list \<Rightarrow> int \<Rightarrow> real \<Rightarrow> error + vec list" where
  "set_row nx u i c =
     (case py_index nx i of Inl e \<Rightarrow> Inl e
      | Inr j \<Rightarrow> Inr (map (\<lambda>col. col[j := c]) u))"

text \<open>\<^verbatim>\<open>u[xi, ti] = c\<close> and \<^verbatim>\<open>u[xi, ti]\<close> for indices in range.\<close>

definition set_entry :: "vec list \<Rightarrow> nat \<Rightarrow> nat \<Rightarrow> real \<Rightarrow> vec list" where
  "set_entry u xi ti c = u[ti := (u ! ti)[xi := c]]"

definition entry :: "vec list \<Rightarrow> nat \<Rightarrow> nat \<Rightarrow> real" where
  "entry u xi ti = u ! ti ! xi"

section \<open>The shooting solver\<close>

type_synonym phase_fun = "real \<Rightarrow> vec \<Rightarrow> real list \<Rightarrow> error + real"

text \<open>
  The two pluggable capabilities. The IVP solver is called as
  \<^verbatim>\<open>ode_solver(ode, 0, Y0, tf=T, args=function_args)\<close> and may run forever; the root finder
  is called as \<^verbatim>\<open>root_solver(shooting_root, U0)\<close>.
\<close>

type_synonym ode_solver =
  "ode_fun \<Rightarrow> pynum \<Rightarrow> pyseq \<Rightarrow> pyval \<Rightarrow> pyargs \<Rightarrow> (error + real list \<times> vec list) option"

type_synonym root_solver =
  "(vec \<Rightarrow> (error + vec) option) \<Rightarrow> pyseq \<Rightarrow> (error + vec) option"

text \<open>The default \<^verbatim>\<open>ode_solver=solve_ode\<close>, with the defaults of its other parameters.\<close>

definition solve_ode_default :: ode_solver where
  "solve_ode_default ode t0 y0 tf args =
     (case solve_ode ode t0 y0 tf PyNone ''RK4'' (Num (PyFloat (1 / 100))) args of
        None \<Rightarrow> None
      | Some (Inl e) \<Rightarrow> Some (Inl e)
      | Some (Inr (warned, t, y)) \<Rightarrow> Some (Inr (t, y)))"

text \<open>
  Lines 235-253, the residual \<^verbatim>\<open>shooting_root(initial_guess)\<close>. \<open>phase_function\<close> is the
  phase function with the extra arguments already bound (line 221).
\<close>

definition shooting_root ::
  "ode_fun \<Rightarrow> (real \<Rightarrow> vec \<Rightarrow> error + real) \<Rightarrow> ode_solver \<Rightarrow> pyargs \<Rightarrow> vec \<Rightarrow> (error + vec) option"
where
  "shooting_root ode phase_function ode_solver function_args initial_guess =
     (case item initial_guess (- 1) of
        Inl e \<Rightarrow> Some (Inl e)
      | Inr T \<Rightarrow>
          let Y0 = butlast initial_guess in
     (case ode_solver ode (PyInt 0) (NdArray Y0) (Num (NpFloat T)) function_args of
        None \<Rightarrow> None
      | Some (Inl e) \<Rightarrow> Some (Inl e)
      | Some (Inr (t, y)) \<Rightarrow>
          let num_vars = length initial_guess;
              conditions = replicate num_vars 0
          in
     (case for_range 0 (num_vars - 1)
             (\<lambda>i conditions.
                case item2_last y i of Inl e \<Rightarrow> Inl e
                | Inr yTi \<Rightarrow> Inr (conditions[i := yTi - Y0 ! i]))
             conditions of
        Inl e \<Rightarrow> Some (Inl e)
      | Inr conditions \<Rightarrow>
     (case phase_function 0 Y0 of
        Inl e \<Rightarrow> Some (Inl e)
      | Inr phase_value \<Rightarrow> Some (Inr (conditions[num_vars - 1 := phase_value]))))))"

text \<open>Lines 210-221: \<^verbatim>\<open>function_args\<close> is unpacked and bound into the phase function.\<close>

definition bind_phase :: "phase_fun \<Rightarrow> pyargs \<Rightarrow> error + (real \<Rightarrow> vec \<Rightarrow> error + real)" where
  "bind_phase phase_function function_args =
     (case function_args of
        NoArgs \<Rightarrow> Inr (\<lambda>t x. phase_function t x [])
      | NotIterable \<Rightarrow> Inl (TypeError ''Supplied function_args cannot be unpacked.'')
      | ArgsTuple as \<Rightarrow> Inr (\<lambda>t x. phase_function t x as))"

text \<open>
  \<^verbatim>\<open>shooting(U0, ode, phase_function, ode_solver, root_solver, atol, function_args)\<close>.
  The probe of line 202 calls \<^verbatim>\<open>solve_ode\<close> itself on \<^verbatim>\<open>U0[:-1]\<close>, and the bare
  \<^verbatim>\<open>except\<close> turns every exception of it into the input error.
\<close>

definition shooting ::
  "pyseq \<Rightarrow> ode_fun \<Rightarrow> phase_fun \<Rightarrow> ode_solver \<Rightarrow> root_solver \<Rightarrow> real \<Rightarrow> pyargs
     \<Rightarrow> (error + vec \<times> real) option"
where
  "shooting U0 ode phase_function ode_solver root_solver atol function_args =
     (case solve_ode ode (PyInt 0) (all_but_last U0) PyNone (Num (PyInt 1)) ''RK4''
             (Num (PyFloat (1 / 100))) function_args of
        None \<Rightarrow> None
      | Some (Inl e) \<Rightarrow>
          Some (Inl (InputError ''The initial guess, U0, is not of the correct form.''))
      | Some (Inr probe) \<Rightarrow>
     (case bind_phase phase_function function_args of
        Inl e \<Rightarrow> Some (Inl e)
      | Inr phase \<Rightarrow>
     (case phase 0 (elems (all_but_last U0)) of
        Inl e \<Rightarrow> Some (Inl (FunctionError ''The phase function is not of the correct form.''))
      | Inr v \<Rightarrow>
     (case root_solver (shooting_root ode phase ode_solver function_args) U0 of
        None \<Rightarrow> None
      | Some (Inl e) \<Rightarrow> Some (Inl e)
      | Some (Inr sol) \<Rightarrow>
          let X0 = butlast sol in
     (case item sol (- 1) of
        Inl e \<Rightarrow> Some (Inl e)
      | Inr T \<Rightarrow>
     (case shooting_root ode phase ode_solver function_args sol of
        None \<Rightarrow> None
      | Some (Inl e) \<Rightarrow> Some (Inl e)
      | Some (Inr final_conditions) \<Rightarrow>
          if \<not> allclose final_conditions (replicate (length sol) 0) atol
          then Some (Inl (NotConverged final_conditions X0 T))
          else if T \<le> 0
          then Some (Inl (ValueError ''The time period is not positive.''))
          else Some (Inr (X0, T))))))))"

section \<open>The PDE time steppers\<close>

text \<open>
  The BVP descriptor of \<^verbatim>\<open>SciComp/bvp.py\<close>, read-only here: the boundary values, the
  coefficient \<open>C\<close>, the number of grid intervals \<open>N\<close>, the size \<open>shape\<close> of the
  identity, the flag \<open>sparse\<close>, the optional reaction term \<open>q_fun(x, t, u)\<close>, the initial
  condition \<open>f_fun(x, t)\<close>, and the triple \<open>(A, b, x_array)\<close> that \<^verbatim>\<open>construct_matrix()\<close>
  returns.
\<close>

record bvp =
  alpha :: real
  beta :: real
  C :: real
  N :: int
  shape :: nat
  sparse :: bool
  q_fun :: "(vec \<Rightarrow> real \<Rightarrow> vec \<Rightarrow> vec) option"
  f_fun :: "vec \<Rightarrow> real \<Rightarrow> vec"
  construct_matrix :: "mat \<times> vec \<times> vec"

text \<open>
  The two linear-solve capabilities, \<^verbatim>\<open>np.linalg.solve\<close> and \<^verbatim>\<open>sp.linalg.spsolve\<close>,
  are parameters of the steppers that call them.
\<close>

type_synonym linsolve = "mat \<Rightarrow> vec \<Rightarrow> error + vec"

text \<open>
  Lines 64-82, \<^verbatim>\<open>explicit_euler\<close>: the buffer it fills, and the function itself, whose
  last statement is a bare \<^verbatim>\<open>return\<close> (the value \<^verbatim>\<open>None\<close> of Python is \<open>None\<close>).
\<close>

definition explicit_euler_buffer :: "bvp \<Rightarrow> vec \<Rightarrow> error + vec list" where
  "explicit_euler_buffer bvp t =
     (case construct_matrix bvp of (A, b, x_array) \<Rightarrow>
        let nx = length x_array;
            u = zeros nx (length t)
        in
     (case item t 0 of Inl e \<Rightarrow> Inl e
      | Inr t_0 \<Rightarrow>
     (case set_col nx u 0 (f_fun bvp x_array t_0) of Inl e \<Rightarrow> Inl e
      | Inr u \<Rightarrow>
     (case set_row nx u 0 (alpha bvp) of Inl e \<Rightarrow> Inl e
      | Inr u \<Rightarrow>
     (case set_row nx u (- 1) (beta bvp) of Inl e \<Rightarrow> Inl e
      | Inr u \<Rightarrow>
          for_range 0 (length t - 1)
            (\<lambda>ti. for_range 1 (nx - 1)
               (\<lambda>xi u.
                  if xi = 0 then Inr (set_entry u xi (ti + 1) (alpha bvp))
                  else if xi > 0 \<and> int xi < N bvp
                  then Inr (set_entry u xi (ti + 1)
                         (entry u xi ti +
                          C bvp * (entry u (xi - 1) ti - 2 * entry u xi ti + entry u (xi + 1) ti)))
                  else Inr (set_entry u xi (ti + 1)
                         (entry u xi ti +
                          C bvp * (beta bvp - 2 * entry u xi ti + entry u (xi - 1) ti)))))
            u)))))"

definition explicit_euler :: "bvp \<Rightarrow> vec \<Rightarrow> error + vec list option" where
  "explicit_euler bvp t =
     (case explicit_euler_buffer bvp t of Inl e \<Rightarrow> Inl e | Inr u \<Rightarrow> Inr None)"

text \<open>
  Lines 124-129: the right-hand side of the method of lines. With a reaction term the
  source defines \<^verbatim>\<open>PDE(t, u, D, A, b)\<close>; a step function calls \<^verbatim>\<open>f(t, y)\<close>, which then
  raises for the three missing arguments.
\<close>

definition PDE :: "bvp \<Rightarrow> mat \<Rightarrow> vec \<Rightarrow> vec \<Rightarrow> vfield" where
  "PDE bvp A b x_array =
     (case q_fun bvp of
        None \<Rightarrow>
          (\<lambda>t u. case matmul_vec A u of Inl e \<Rightarrow> Inl e
                  | Inr Au \<Rightarrow>
                 (case np_add Au b of Inl e \<Rightarrow> Inl e
                  | Inr s \<Rightarrow> Inr (map ((*) (C bvp)) s)))
      | Some q \<Rightarrow>
          (\<lambda>t u. Inl (TypeError ''PDE() missing 3 required positional arguments'')))"

text \<open>
  Lines 106-135, \<^verbatim>\<open>explicit_method(bvp, t, method)\<close>. The name is looked up in
  \<^verbatim>\<open>METHODS\<close> (line 114); the loop of line 133 calls \<^verbatim>\<open>euler_step\<close>. The
  variable \<open>tn\<close> is the \<^verbatim>\<open>t_\<close> of the source.
\<close>

definition explicit_method :: "bvp \<Rightarrow> vec \<Rightarrow> string \<Rightarrow> error + vec list" where
  "explicit_method bvp t method =
     (case METHODS method of
        None \<Rightarrow> Inl (ValueError ''Invalid method.'')
      | Some m \<Rightarrow>
     (case construct_matrix bvp of (A, b, x_array) \<Rightarrow>
        let nx = length x_array;
            u = zeros nx (length t)
        in
     (case item t 0 of Inl e \<Rightarrow> Inl e
      | Inr t_0 \<Rightarrow>
     (case set_col nx u 0 (f_fun bvp x_array t_0) of Inl e \<Rightarrow> Inl e
      | Inr u \<Rightarrow>
     (case set_row nx u 0 (alpha bvp) of Inl e \<Rightarrow> Inl e
      | Inr u \<Rightarrow>
     (case set_row nx u (- 1) (beta bvp) of Inl e \<Rightarrow> Inl e
      | Inr u \<Rightarrow>
     (case for_range 0 (length t - 1)
             (\<lambda>n (tn, u).
                case euler_step (PDE bvp A b x_array) tn (u ! n) 1 of Inl e \<Rightarrow> Inl e
                | Inr (t', col) \<Rightarrow>
               (case set_col nx u (int n + 1) col of Inl e \<Rightarrow> Inl e
                | Inr u' \<Rightarrow> Inr (t', u')))
             (t_0, u) of
        Inl e \<Rightarrow> Inl e
      | Inr (tn, u) \<Rightarrow> Inr u)))))))"

text \<open>
  The stepper the spec describes (section 4.4, explicit method of lines), for comparison:
  the same function, advancing with the step function that \<open>method\<close> selects.
\<close>

definition explicit_method_spec :: "bvp \<Rightarrow> vec \<Rightarrow> string \<Rightarrow> error + vec list" where
  "explicit_method_spec bvp t method =
     (case METHODS method of
        None \<Rightarrow> Inl (ValueError ''Invalid method.'')
      | Some m \<Rightarrow>
     (case construct_matrix bvp of (A, b, x_array) \<Rightarrow>
        let nx = length x_array;
            u = zeros nx (length t)
        in
     (case item t 0 of Inl e \<Rightarrow> Inl e
      | Inr t_0 \<Rightarrow>
     (case set_col nx u 0 (f_fun bvp x_array t_0) of Inl e \<Rightarrow> Inl e
      | Inr u \<Rightarrow>
     (case set_row nx u 0 (alpha bvp) of Inl e \<Rightarrow> Inl e
      | Inr u \<Rightarrow>
     (case set_row nx u (- 1) (beta bvp) of Inl e \<Rightarrow> Inl e
      | Inr u \<Rightarrow>
     (case for_range 0 (length t - 1)
             (\<lambda>n (tn, u).
                case call_step m (PDE bvp A b x_array) tn (u ! n) 1 of Inl e \<Rightarrow> Inl e
                | Inr (t', col) \<Rightarrow>
               (case set_col nx u (int n + 1) col of Inl e \<Rightarrow> Inl e
                | Inr u' \<Rightarrow> Inr (t', u')))
             (t_0, u) of
        Inl e \<Rightarrow> Inl e
      | Inr (tn, u) \<Rightarrow> Inr u)))))))"

text \<open>
  Lines 154-176, \<^verbatim>\<open>implicit_euler\<close>. \<open>lhs = I - C * A\<close>, \<open>rhs = C * b\<close>; every step solves
  \<open>lhs\<close> against \<open>u[:, ti] + rhs\<close> with the sparse or the dense capability.
\<close>

definition implicit_euler :: "linsolve \<Rightarrow> linsolve \<Rightarrow> bvp \<Rightarrow> vec \<Rightarrow> error + vec list" where
  "implicit_euler solve spsolve bvp t =
     (case construct_matrix bvp of (A, b, x_array) \<Rightarrow>
     (case mat_sub (eye (shape bvp)) (mat_scale (C bvp) A) of Inl e \<Rightarrow> Inl e
      | Inr lhs \<Rightarrow>
        let rhs = map ((*) (C bvp)) b;
            nx = length x_array;
            u = zeros nx (length t)
        in
     (case item t 0 of Inl e \<Rightarrow> Inl e
      | Inr t_0 \<Rightarrow>
     (case set_col nx u 0 (f_fun bvp x_array t_0) of Inl e \<Rightarrow> Inl e
      | Inr u \<Rightarrow>
          for_range 0 (length t - 1)
            (\<lambda>ti u.
               case np_add (u ! ti) rhs of Inl e \<Rightarrow> Inl e
               | Inr r \<Rightarrow>
              (case (if sparse bvp then spsolve lhs r else solve lhs r) of Inl e \<Rightarrow> Inl e
               | Inr v \<Rightarrow> set_col nx u (int ti + 1) v))
            u))))"

text \<open>
  Lines 234-254, \<^verbatim>\<open>imex_euler\<close>: the identity and the solve are the dense ones whatever
  the flag \<open>sparse\<close> says; with a reaction term, \<^verbatim>\<open>u[:, ti+1] += q_fun(x_array, t[ti], u[:, ti])\<close>.
\<close>

definition imex_euler :: "linsolve \<Rightarrow> bvp \<Rightarrow> vec \<Rightarrow> error + vec list" where
  "imex_euler solve bvp t =
     (case construct_matrix bvp of (A, b, x_array) \<Rightarrow>
     (case mat_sub (eye (shape bvp)) (mat_scale (C bvp) A) of Inl e \<Rightarrow> Inl e
      | Inr lhs \<Rightarrow>
        let rhs = map ((*) (C bvp)) b;
            nx = length x_array;
            u = zeros nx (length t)
        in
     (case item t 0 of Inl e \<Rightarrow> Inl e
      | Inr t_0 \<Rightarrow>
     (case set_col nx u 0 (f_fun bvp x_array t_0) of Inl e \<Rightarrow> Inl e
      | Inr u \<Rightarrow>
          for_range 0 (length t - 1)
            (\<lambda>ti u.
               case np_add (u ! ti) rhs of Inl e \<Rightarrow> Inl e
               | Inr r \<Rightarrow>
              (case solve lhs r of Inl e \<Rightarrow> Inl e
               | Inr v \<Rightarrow>
              (case set_col nx u (int ti + 1) v of Inl e \<Rightarrow> Inl e
               | Inr u \<Rightarrow>
              (case q_fun bvp of
                 None \<Rightarrow> Inr u
               | Some q \<Rightarrow>
                  (case broadcast_to nx (q x_array (t ! ti) (u ! ti)) of Inl e \<Rightarrow> Inl e
                   | Inr qv \<Rightarrow> Inr (u[ti + 1 := map2 (+) (u ! (ti + 1)) qv]))))))
            u))))"

section \<open>Inputs of the concrete runs\<close>

text \<open>The vector field \<open>f(t, y) = -y\<close> of section 8 of the spec; it takes no extra arguments.\<close>

definition decay :: ode_fun where
  "decay t y as = Inr (map uminus y)"

text \<open>
  A heat equation on \<open>[0, 1]\<close> with \<open>N = 4\<close> intervals: three interior grid points, the
  second-difference matrix, boundary values \<open>alpha = 1\<close> and \<open>beta = 0\<close> (they enter
  \<open>b\<close>), \<open>C = 1/2\<close>, a zero initial condition and no reaction term.
\<close>

definition heat_bvp :: bvp where
  "heat_bvp =
     \<lparr>alpha = 1, beta = 0, C = 1 / 2, N = 4, shape = 3, sparse = False, q_fun = None,
      f_fun = (\<lambda>x t. map (\<lambda>xi. 0) x),
      construct_matrix =
        ([[- 2, 1, 0], [1, - 2, 1], [0, 1, - 2]], [1, 0, 0], [1 / 4, 1 / 2, 3 / 4])\<rparr>"

text \<open>
  The contract of a linear-solve capability (section 6 of the spec, \<open>solve(A, rhs) \<rightarrow> x\<close>):
  what it returns has the length of the right-hand side and solves the system.
\<close>

definition solver_sound :: "linsolve \<Rightarrow> bool" where
  "solver_sound s = (\<forall>M r x. s M r = Inr x \<longrightarrow> length x = length r \<and> matmul_vec M x = Inr r)"

text \<open>
  Two linear solvers for 2 x 2 systems, to run the implicit steppers on: Cramer's rule in
  the place of the dense solve, elimination without pivoting in the place of the sparse one.
\<close>

fun cramer2 :: linsolve where
  "cramer2 [[a, b], [c, d]] [e, f] =
     (if a * d - b * c = 0 then Inl (LinAlgError ''Singular matrix'')
      else Inr [(e * d - b * f) / (a * d - b * c), (a * f - e * c) / (a * d - b * c)])"
| "cramer2 M r = Inl (LinAlgError ''not a 2 x 2 system'')"

fun gauss2 :: linsolve where
  "gauss2 [[a, b], [c, d]] [e, f] =
     (if a = 0 \<or> d - c / a * b = 0 then Inl (LinAlgError ''Singular matrix'')
      else let y = (f - c / a * e) / (d - c / a * b) in Inr [(e - b * y) / a, y])"
| "gauss2 M r = Inl (LinAlgError ''not a 2 x 2 system'')"

text \<open>
  The heat problem on three intervals (two interior grid points), flagged sparse, and the
  same problem with a reaction term \<open>q(x, t, u) = u / 10\<close>.
\<close>

definition heat2_bvp :: bvp where
  "heat2_bvp =
     \<lparr>alpha = 1, beta = 0, C = 1 / 2, N = 3, shape = 2, sparse = True, q_fun = None,
      f_fun = (\<lambda>x t. map (\<lambda>xi. 0) x),
      construct_matrix = ([[- 2, 1], [1, - 2]], [1, 0], [1 / 3, 2 / 3])\<rparr>"

definition react2_bvp :: bvp where
  "react2_bvp = heat2_bvp\<lparr>q_fun := Some (\<lambda>x t u. map (\<lambda>ui. ui / 10) u)\<rparr>"

text \<open>
  Inputs of the shooting solver. The phase function is the first component of the vector
  field, as in the example of the docstring; \<open>still\<close> is the zero vector field, every
  orbit of which is periodic with every period. \<open>keep_guess\<close> is a root finder that
  returns its initial guess, and \<open>frozen_solver\<close> an IVP solver that accepts every numeric
  \<open>tf\<close> and returns the initial state at \<open>t0\<close> and at \<open>tf\<close>.
\<close>

definition decay_phase :: phase_fun where
  "decay_phase t y as = (case decay t y as of Inl e \<Rightarrow> Inl e | Inr d \<Rightarrow> item d 0)"

definition still :: ode_fun where
  "still t y as = Inr (map (\<lambda>yi. 0) y)"

definition still_phase :: phase_fun where
  "still_phase t y as = (case still t y as of Inl e \<Rightarrow> Inl e | Inr d \<Rightarrow> item d 0)"

definition keep_guess :: root_solver where
  "keep_guess residual U0 = Some (Inr (elems U0))"

definition frozen_solver :: ode_solver where
  "frozen_solver ode t0 y0 tf args =
     (case tf of Num T \<Rightarrow> Some (Inr ([num t0, num T], [elems y0, elems y0]))
      | _ \<Rightarrow> Some (Inl (ValueError ''tf must be a number.'')))"

section \<open>Properties of the stepping loop of \<open>solve_ode\<close>\<close>

text \<open>One unfolding of the loop: the exit, an exception of the step, and one iteration.\<close>

lemma solve_loop_exit:
  "\<not> loop_cond tf n_max t step \<Longrightarrow>
   solve_loop method fn tf n_max t y ts ys step h = Some (Inr (ts, ys))"
  by (subst solve_loop.simps) (auto simp: loop_cond_def)

lemma solve_loop_raise:
  "loop_cond tf n_max t step \<Longrightarrow> method fn t y h = Inl e \<Longrightarrow>
   solve_loop method fn tf n_max t y ts ys step h = Some (Inl e)"
  by (subst solve_loop.simps) (simp add: loop_cond_def)

lemma solve_loop_step:
  "loop_cond tf n_max t step \<Longrightarrow> method fn t y h = Inr (t', y') \<Longrightarrow>
   solve_loop method fn tf n_max t y ts ys step h =
   solve_loop method fn tf n_max t' y' (ts @ [t']) (ys @ [y']) (step + 1)
     (case tf of None \<Rightarrow> h | Some T \<Rightarrow> if t' + h > T then T - t' else h)"
  by (subst solve_loop.simps) (simp add: loop_cond_def)

lemma solve_loop_n_max:
  "nat (n - step) \<le> k \<Longrightarrow>
   \<exists>r. solve_loop method fn tf (Some n) t y ts ys step h = Some r \<and>
       (\<forall>ts' ys'. r = Inr (ts', ys') \<longrightarrow> length ts' \<le> length ts + k)"
proof (induction k arbitrary: t y ts ys step h)
  case 0
  then have "\<not> loop_cond tf (Some n) t step" by (simp add: loop_cond_def)
  then show ?case by (simp add: solve_loop_exit)
next
  case (Suc k)
  show ?case
  proof (cases "loop_cond tf (Some n) t step")
    case False
    then show ?thesis by (simp add: solve_loop_exit)
  next
    case True
    show ?thesis
    proof (cases "method fn t y h")
      case (Inl e)
      with True show ?thesis by (simp add: solve_loop_raise)
    next
      case (Inr p)
      obtain t' y' where p: "p = (t', y')" by (cases p)
      from Suc.prems have "nat (n - (step + 1)) \<le> k" by linarith
      from Suc.IH [OF this, of t' y' "ts @ [t']" "ys @ [y']"
          "(case tf of None \<Rightarrow> h | Some T \<Rightarrow> if t' + h > T then T - t' else h)"]
      show ?thesis
        using True Inr p by (auto simp: solve_loop_step)
    qed
  qed
qed

lemma solve_loop_tf:
  assumes c: "step_contract method fn"
  shows "t < T \<Longrightarrow> 0 < h \<Longrightarrow> t + h \<le> T \<Longrightarrow> T - t \<le> real k * h \<Longrightarrow>
   \<exists>r. solve_loop method fn (Some T) None t y ts ys step h = Some r \<and>
       (\<forall>ts' ys'. r = Inr (ts', ys') \<longrightarrow> last ts' = T \<and> length ts' \<le> length ts + k)"
proof (induction k arbitrary: t y ts ys step h)
  case 0
  then show ?case by simp
next
  case (Suc k)
  have lc: "loop_cond (Some T) None t step" using Suc.prems by (simp add: loop_cond_def)
  show ?case
  proof (cases "method fn t y h")
    case (Inl e)
    with lc show ?thesis by (simp add: solve_loop_raise)
  next
    case (Inr p)
    obtain t' y' where p: "p = (t', y')" by (cases p)
    have t': "t' = t + h" using c Inr p unfolding step_contract_def by blast
    let ?h' = "if t' + h > T then T - t' else h"
    have st: "solve_loop method fn (Some T) None t y ts ys step h =
        solve_loop method fn (Some T) None t' y' (ts @ [t']) (ys @ [y']) (step + 1) ?h'"
      using solve_loop_step [OF lc, of "method" "fn" y h t' y' ts ys] Inr p by simp
    consider (fin) "t' = T" | (full) "t' < T" "t' + h \<le> T" | (clamp) "t' < T" "t' + h > T"
      using Suc.prems t' by linarith
    then show ?thesis
    proof cases
      case fin
      then have "\<not> loop_cond (Some T) None t' (step + 1)" by (simp add: loop_cond_def)
      then show ?thesis using st fin by (simp add: solve_loop_exit)
    next
      case full
      have "T - t' \<le> real k * h" using Suc.prems t' by (simp add: algebra_simps)
      from Suc.IH [OF full(1) Suc.prems(2) full(2) this, of y' "ts @ [t']" "ys @ [y']" "step + 1"]
      show ?thesis using st full by auto
    next
      case clamp
      have h': "?h' = T - t'" using clamp by simp
      have lc': "loop_cond (Some T) None t' (step + 1)" using clamp by (simp add: loop_cond_def)
      have k: "1 \<le> k"
      proof (rule ccontr)
        assume "\<not> 1 \<le> k"
        then have "k = 0" by simp
        with Suc.prems t' clamp show False by simp
      qed
      show ?thesis
      proof (cases "method fn t' y' (T - t')")
        case (Inl e)
        with lc' st h' show ?thesis by (simp add: solve_loop_raise)
      next
        case (Inr q)
        obtain t'' y'' where q: "q = (t'', y'')" by (cases q)
        have t'': "t'' = T" using c Inr q unfolding step_contract_def by fastforce
        have "\<not> loop_cond (Some T) None t'' (step + 1 + 1)" using t'' by (simp add: loop_cond_def)
        then show ?thesis
          using st h' solve_loop_step [OF lc', of "method" "fn" y' "T - t'" t'' y'' "ts @ [t']" "ys @ [y']"]
            Inr q t'' k
          by (simp add: solve_loop_exit)
      qed
    qed
  qed
qed



text \<open>The three step functions return the time \<open>t + h\<close>.\<close>

lemma step_contract_euler: "step_contract euler_step fn"
  by (auto simp: step_contract_def euler_step_def split: sum.splits)

lemma step_contract_heun: "step_contract heun_step fn"
  by (auto simp: step_contract_def heun_step_def split: sum.splits)

lemma step_contract_rk4: "step_contract rk4_step fn"
  by (auto simp: step_contract_def rk4_step_def split: sum.splits)

lemma step_contract_call_step: "step_contract (call_step m) fn"
  by (cases m) (simp_all add: step_contract_euler step_contract_heun step_contract_rk4)

lemma ceiling_steps:
  assumes "t < T" "0 < h"
  shows "T - t \<le> real (nat \<lceil>(T - t) / h\<rceil>) * h" "1 \<le> nat \<lceil>(T - t) / h\<rceil>"
proof -
  have pos: "0 < (T - t) / h" using assms by simp
  then have c: "0 < \<lceil>(T - t) / h\<rceil>" by linarith
  then show "1 \<le> nat \<lceil>(T - t) / h\<rceil>" by linarith
  have "(T - t) / h \<le> of_int \<lceil>(T - t) / h\<rceil>" by linarith
  also have "\<dots> = real (nat \<lceil>(T - t) / h\<rceil>)" using c by simp
  finally show "T - t \<le> real (nat \<lceil>(T - t) / h\<rceil>) * h"
    using assms(2) by (simp add: pos_divide_le_eq)
qed

lemma solve_loop_tf_first:
  assumes c: "step_contract method fn" and lt: "t < T" and h: "0 < h"
  shows "\<exists>r. solve_loop method fn (Some T) None t y ts ys step h = Some r \<and>
       (\<forall>ts' ys'. r = Inr (ts', ys') \<longrightarrow>
          length ts' \<le> length ts + nat \<lceil>(T - t) / h\<rceil> \<and> (t + h \<le> T \<longrightarrow> last ts' = T))"
proof (cases "t + h \<le> T")
  case True
  from solve_loop_tf [OF c lt h True ceiling_steps(1) [OF lt h], of y ts ys step]
  show ?thesis using True by auto
next
  case False
  have lc: "loop_cond (Some T) None t step" using lt by (simp add: loop_cond_def)
  show ?thesis
  proof (cases "method fn t y h")
    case (Inl e)
    with lc show ?thesis by (simp add: solve_loop_raise)
  next
    case (Inr p)
    obtain t' y' where p: "p = (t', y')" by (cases p)
    have t': "t' = t + h" using c Inr p unfolding step_contract_def by blast
    then have "\<not> loop_cond (Some T) None t' (step + 1)" using False by (simp add: loop_cond_def)
    then show ?thesis
      using solve_loop_step [OF lc, of "method" "fn" y h t' y' ts ys] Inr p False
        ceiling_steps(2) [OF lt h]
      by (simp add: solve_loop_exit)
  qed
qed


text \<open>
  With both bounds checked by the validation, no call of \<open>solve_ode\<close> runs forever.
\<close>

lemma solve_ode_total:
  "\<exists>r. solve_ode fn t0 y0 tf n_max method deltat_max args = Some r"
proof -
  have loop: "solve_loop (call_step m) f (bound_of_tf tf) (bound_of_n_max n_max)
             (num t0) (elems y0) [num t0] [elems y0] 0 h \<noteq> None"
    if a1: "tf \<noteq> PyNone \<or> n_max \<noteq> PyNone" and a2: "check_tf tf t0 m = Inr w"
      and a3: "check_n_max n_max = Inr u" and a4: "check_deltat_max deltat_max = Inr h" for m f w u h
  proof (cases "bound_of_n_max n_max")
    case (Some n)
    show ?thesis unfolding Some
      using solve_loop_n_max [of n 0 "nat n" "call_step m" f "bound_of_tf tf" "num t0" "elems y0"
          "[num t0]" "[elems y0]" h]
      by auto
  next
    case None
    with a3 have nm: "n_max = PyNone"
      by (auto simp: check_n_max_def split: pyval.splits pynum.splits if_splits)
    with a1 obtain v where tf: "tf = Num v" using a2
      by (cases tf) (auto simp: check_tf_def)
    with a2 have lt: "num t0 < num v" by (auto simp: check_tf_def split: if_splits)
    from a4 have h: "0 < h"
      by (auto simp: check_deltat_max_def split: pyval.splits if_splits)
    show ?thesis
      using solve_loop_tf_first [OF step_contract_call_step lt h, of m f "elems y0" "[num t0]"
          "[elems y0]" 0]
      unfolding None tf by auto
  qed
  show ?thesis
    unfolding solve_ode_def
    by (auto split: sum.splits option.splits prod.splits simp: loop)
qed

text \<open>
  The guard of the warning never holds, so no call of \<open>solve_ode\<close> emits one.
\<close>

lemma check_tf_never_warns: "check_tf tf t0 m = Inr warned \<Longrightarrow> warned = []"
  by (auto simp: check_tf_def split: pyval.splits if_splits)

lemma solve_ode_never_warns:
  "solve_ode fn t0 y0 tf n_max method deltat_max args \<noteq> Some (Inr (w # ws, t_array, y_array))"
  by (auto simp: solve_ode_def split: sum.splits option.splits prod.splits
      dest: check_tf_never_warns)




text \<open>
  C1. The call \<^verbatim>\<open>solve_ode(f, 0, y0, tf=0.005)\<close> with \<open>f(t, y) = -y\<close>, \<open>y0 = [1.0]\<close> and
  the defaults (\<^verbatim>\<open>method='RK4'\<close>, \<^verbatim>\<open>deltat_max=0.01\<close>): the first step is taken with the
  full step size before the clamp of line 144 is ever evaluated, so the trajectory ends at
  \<open>t = 0.01\<close>, past \<open>tf\<close>.
\<close>

theorem solve_ode_overshoots_tf:
  "solve_ode decay (PyInt 0) (NdArray [1]) (Num (PyFloat (1 / 200))) PyNone ''RK4''
     (Num (PyFloat (1 / 100))) NoArgs =
   Some (Inr ([], [0, 1 / 100], [[1], [792039867 / 800000000]]))"
  by (simp add: solve_ode_def bind_args_def decay_def METHODS_def check_tf_def check_n_max_def
      check_deltat_max_def solve_loop.simps rk4_step_def axpy_def)

text \<open>
  C7. The call \<^verbatim>\<open>solve_ode(f, 0, y0, tf=0.0005, method='RK4')\<close>: validation passes and the
  trajectory is returned, with no warning emitted.
\<close>

theorem solve_ode_rk4_small_tf_no_warning:
  "solve_ode decay (PyInt 0) (NdArray [1]) (Num (PyFloat (1 / 2000))) PyNone ''RK4''
     (Num (PyFloat (1 / 100))) NoArgs =
   Some (Inr ([], [0, 1 / 100], [[1], [792039867 / 800000000]]))"
  by (simp add: solve_ode_def bind_args_def decay_def METHODS_def check_tf_def check_n_max_def
      check_deltat_max_def solve_loop.simps rk4_step_def axpy_def)

section \<open>Properties of the explicit PDE steppers\<close>

text \<open>A loop whose body never raises ends normally.\<close>

lemma for_iter_total:
  assumes "\<And>i s. \<exists>s'. body i s = Inr s'"
  shows "\<exists>s'. for_iter lo k body s = Inr s'"
proof (induction k)
  case 0
  show ?case by simp
next
  case (Suc k)
  then obtain s1 where "for_iter lo k body s = Inr s1" by blast
  moreover obtain s2 where "body (lo + k) s1 = Inr s2" using assms by blast
  ultimately show ?case by simp
qed

lemma explicit_euler_buffer_returns:
  assumes "construct_matrix bvp = (A, b, x_array)" and "t \<noteq> []" and "x_array \<noteq> []"
    and "length (f_fun bvp x_array (t ! 0)) = length x_array"
  shows "\<exists>u. explicit_euler_buffer bvp t = Inr u"
proof -
  have inner: "\<exists>s'. for_range 1 (length x_array - 1)
               (\<lambda>xi u.
                  if xi = 0 then Inr (set_entry u xi (ti + 1) (alpha bvp))
                  else if xi > 0 \<and> int xi < N bvp
                  then Inr (set_entry u xi (ti + 1)
                         (entry u xi ti +
                          C bvp * (entry u (xi - 1) ti - 2 * entry u xi ti + entry u (xi + 1) ti)))
                  else Inr (set_entry u xi (ti + 1)
                         (entry u xi ti +
                          C bvp * (beta bvp - 2 * entry u xi ti + entry u (xi - 1) ti)))) s = Inr s'" for ti s
    unfolding for_range_def by (rule for_iter_total) simp
  have t0: "item t 0 = Inr (t ! 0)" using assms(2) by (simp add: item_def py_index_def)
  have i0: "py_index (length x_array) 0 = Inr 0" and i1: "py_index (length x_array) (- 1) = Inr (length x_array - 1)"
    and i2: "py_index (length t) 0 = Inr 0"
    using assms(2,3) by (auto simp: py_index_def Let_def nat_diff_distrib)
  show ?thesis
    unfolding explicit_euler_buffer_def for_range_def [of 0]
    using for_iter_total [OF inner]
    by (simp add: assms(1,4) t0 i0 i1 i2 set_col_def set_row_def broadcast_to_def zeros_def Let_def)
qed

text \<open>
  C9. \<open>explicit_euler\<close> returns \<^verbatim>\<open>None\<close>: whenever it returns, the value is \<open>None\<close>,
  and it does return for a non-empty time grid, a non-empty spatial grid and an initial
  condition of the length of the grid; the buffer it has filled is dropped.
\<close>

theorem explicit_euler_returns_None:
  "(\<forall>r. explicit_euler bvp t = Inr r \<longrightarrow> r = None) \<and>
   (construct_matrix bvp = (A, b, x_array) \<and> t \<noteq> [] \<and> x_array \<noteq> [] \<and>
    length (f_fun bvp x_array (t ! 0)) = length x_array \<longrightarrow> explicit_euler bvp t = Inr None)"
  using explicit_euler_buffer_returns [of bvp A b x_array t]
  by (auto simp: explicit_euler_def split: sum.splits)


theorem explicit_euler_returns_None_witness:
  "explicit_euler_buffer heat_bvp [0, 1] = Inr [[1, 0, 0], [1, 1 / 2, 0]] \<and>
   explicit_euler heat_bvp [0, 1] = Inr None"
proof -
  have "construct_matrix heat_bvp =
      ([[- 2, 1, 0], [1, - 2, 1], [0, 1, - 2]], [1, 0, 0], [1 / 4, 1 / 2, 3 / 4])"
    by (simp add: heat_bvp_def)
  moreover have "length (f_fun heat_bvp [1 / 4, 1 / 2, 3 / 4] ([0, 1] ! 0)) = 3"
    by (simp add: heat_bvp_def)
  ultimately have "explicit_euler heat_bvp [0, 1] = Inr None"
    using explicit_euler_returns_None [of heat_bvp "[0, 1]" "[[- 2, 1, 0], [1, - 2, 1], [0, 1, - 2]]"
        "[1, 0, 0]" "[1 / 4, 1 / 2, 3 / 4]"]
    by simp
  moreover have "explicit_euler_buffer heat_bvp [0, 1] = Inr [[1, 0, 0], [1, 1 / 2, 0]]"
    by (simp add: explicit_euler_buffer_def heat_bvp_def zeros_def item_def py_index_def
        set_col_def set_row_def broadcast_to_def for_range_def Let_def set_entry_def entry_def
        eval_nat_numeral)
  ultimately show ?thesis by simp
qed

text \<open>
  \<open>explicit_method\<close> looks the name up and then never uses the step function it found:
  two recognised names give the same result, and an unrecognised one is rejected.
\<close>

lemma explicit_method_ignores_name:
  "METHODS m1 \<noteq> None \<Longrightarrow> METHODS m2 \<noteq> None \<Longrightarrow>
   explicit_method bvp t m1 = explicit_method bvp t m2"
  by (auto simp: explicit_method_def)

lemma explicit_method_rejects:
  "METHODS m = None \<Longrightarrow> explicit_method bvp t m = Inl (ValueError ''Invalid method.'')"
  by (simp add: explicit_method_def)

text \<open>
  C2. On the heat problem and the time grid \<open>[0, 1]\<close>, \<^verbatim>\<open>method='RK4'\<close> gives the column
  of one Euler step, the same as \<^verbatim>\<open>method='Euler'\<close>; advancing with the RK4 step, as the
  stepper of the spec does, gives another column.
\<close>

theorem explicit_method_RK4_is_Euler:
  "explicit_method heat_bvp [0, 1] ''RK4'' = Inr [[1, 0, 0], [1 / 2, 1 / 2, 0]] \<and>
   explicit_method heat_bvp [0, 1] ''Euler'' = Inr [[1, 0, 0], [1 / 2, 1 / 2, 0]] \<and>
   explicit_method_spec heat_bvp [0, 1] ''RK4'' = Inr [[1, 0, 0], [73 / 96, 47 / 192, 7 / 96]]"
  by (simp add: explicit_method_def explicit_method_spec_def METHODS_def heat_bvp_def zeros_def
      item_def py_index_def set_col_def set_row_def broadcast_to_def for_range_def
      euler_step_def rk4_step_def PDE_def matmul_vec_def np_add_def axpy_def Let_def)

text \<open>
  C8. On the heat problem and the time grid \<open>[0, 1, 2]\<close> the boundary rows are pinned in
  column 0 only: every step assigns the whole column, so the first row (\<open>alpha = 1\<close>) is
  \<open>1/2\<close> and \<open>3/4\<close> in the next columns, and the last row (\<open>beta = 0\<close>) is \<open>1/4\<close> in
  column 2.
\<close>

theorem explicit_method_boundary_rows_overwritten:
  "explicit_method heat_bvp [0, 1, 2] ''Euler'' =
     Inr [[1, 0, 0], [1 / 2, 1 / 2, 0], [3 / 4, 1 / 4, 1 / 4]]"
  by (simp add: explicit_method_def METHODS_def heat_bvp_def zeros_def
      item_def py_index_def set_col_def set_row_def broadcast_to_def for_range_def
      euler_step_def PDE_def matmul_vec_def np_add_def axpy_def Let_def eval_nat_numeral)

section \<open>Properties of the implicit PDE steppers\<close>

text \<open>
  The loop of a stepper that fills column \<open>ti + 1\<close> from column \<open>ti\<close>: after \<open>k\<close>
  iterations every pair of neighbouring columns written so far is related by the step.
\<close>

lemma for_iter_Suc_Inr:
  "for_iter lo (Suc k) body s = Inr s' \<Longrightarrow>
   \<exists>s1. for_iter lo k body s = Inr s1 \<and> body (lo + k) s1 = Inr s'"
  by (auto split: sum.splits)

lemma column_loop:
  assumes body: "\<And>ti u u'. body ti u = Inr u' \<Longrightarrow>
      ti + 1 < length u \<and> (\<exists>col. R ti (u ! ti) col \<and> u' = u[ti + 1 := col])"
  shows "for_iter 0 k body u0 = Inr u \<Longrightarrow>
     length u = length u0 \<and> u ! 0 = u0 ! 0 \<and>
     (\<forall>ti<k. ti + 1 < length u0 \<and> R ti (u ! ti) (u ! (ti + 1)))"
proof (induction k arbitrary: u)
  case 0
  then show ?case by simp
next
  case (Suc k)
  from for_iter_Suc_Inr [OF Suc.prems] obtain uk where
    uk: "for_iter 0 k body u0 = Inr uk" and b: "body k uk = Inr u" by auto
  from Suc.IH [OF uk] have len: "length uk = length u0" and z: "uk ! 0 = u0 ! 0"
    and old: "\<forall>ti<k. ti + 1 < length u0 \<and> R ti (uk ! ti) (uk ! (ti + 1))" by auto
  from body [OF b] obtain col where k: "k + 1 < length uk" and r: "R k (uk ! k) col"
    and u: "u = uk[k + 1 := col]" by auto
  have "ti + 1 < length u0 \<and> R ti (u ! ti) (u ! (ti + 1))" if "ti < Suc k" for ti
  proof (cases "ti = k")
    case True
    then show ?thesis using k r u len by simp
  next
    case False
    with that have "ti < k" by simp
    then show ?thesis using old u by simp
  qed
  then show ?case using u len z by simp
qed

lemma set_col_Inr:
  "set_col nx u (int ti + 1) v = Inr u' \<Longrightarrow>
   ti + 1 < length u \<and> (\<exists>v'. broadcast_to nx v = Inr v' \<and> u' = u[ti + 1 := v'])"
  by (auto simp: set_col_def py_index_def Let_def nat_add_distrib split: sum.splits if_splits)

lemma set_col_0_Inr:
  "set_col nx u 0 v = Inr u' \<Longrightarrow>
   0 < length u \<and> (\<exists>v'. broadcast_to nx v = Inr v' \<and> u' = u[0 := v'])"
  by (auto simp: set_col_def py_index_def Let_def split: sum.splits if_splits)

lemma item_0_Inr: "item t 0 = Inr x \<Longrightarrow> t \<noteq> [] \<and> x = t ! 0"
  by (auto simp: item_def py_index_def Let_def split: sum.splits if_splits)

lemma broadcast_to_length: "broadcast_to n v = Inr v' \<Longrightarrow> length v' = n"
  by (auto simp: broadcast_to_def split: if_splits)

lemma implicit_euler_Inr:
  assumes cm: "construct_matrix bvp = (A, b, x_array)"
    and res: "implicit_euler solve spsolve bvp t = Inr u"
  shows "\<exists>lhs. mat_sub (eye (shape bvp)) (mat_scale (C bvp) A) = Inr lhs \<and>
     length u = length t \<and> t \<noteq> [] \<and>
     broadcast_to (length x_array) (f_fun bvp x_array (t ! 0)) = Inr (u ! 0) \<and>
     (\<forall>ti. ti + 1 < length t \<longrightarrow>
        (\<exists>r v. np_add (u ! ti) (map ((*) (C bvp)) b) = Inr r \<and>
           (if sparse bvp then spsolve else solve) lhs r = Inr v \<and>
           broadcast_to (length x_array) v = Inr (u ! (ti + 1))))"
proof -
  let ?nx = "length x_array" and ?rhs = "map ((*) (C bvp)) b"
  let ?s = "if sparse bvp then spsolve else solve"
  from res cm obtain lhs where lhs: "mat_sub (eye (shape bvp)) (mat_scale (C bvp) A) = Inr lhs"
    by (auto simp: implicit_euler_def split: sum.splits)
  let ?body = "\<lambda>ti u. case np_add (u ! ti) ?rhs of Inl e \<Rightarrow> Inl e
               | Inr r \<Rightarrow>
              (case (if sparse bvp then spsolve lhs r else solve lhs r) of Inl e \<Rightarrow> Inl e
               | Inr v \<Rightarrow> set_col ?nx u (int ti + 1) v)"
  from res cm lhs obtain t_0 u1 where t0: "item t 0 = Inr t_0"
    and u1: "set_col ?nx (zeros ?nx (length t)) 0 (f_fun bvp x_array t_0) = Inr u1"
    and loop: "for_iter 0 (length t - 1) ?body u1 = Inr u"
    by (auto simp: implicit_euler_def for_range_def Let_def split: sum.splits)
  from item_0_Inr [OF t0] have tne: "t \<noteq> []" and t_0: "t_0 = t ! 0" by auto
  from set_col_0_Inr [OF u1] obtain v' where
    v': "broadcast_to ?nx (f_fun bvp x_array t_0) = Inr v'" and u1': "u1 = (zeros ?nx (length t))[0 := v']"
    by auto
  have len1: "length u1 = length t" using u1' by (simp add: zeros_def)
  let ?R = "\<lambda>(ti::nat) c col. \<exists>r v. np_add c ?rhs = Inr r \<and> ?s lhs r = Inr v \<and>
              broadcast_to ?nx v = Inr col"
  have body: "ti + 1 < length w \<and> (\<exists>col. ?R ti (w ! ti) col \<and> w' = w[ti + 1 := col])"
    if "?body ti w = Inr w'" for ti w w'
    using that by (auto split: sum.splits if_splits dest!: set_col_Inr)
  from column_loop [of ?body ?R, OF body loop]
  have "length u = length u1" "u ! 0 = u1 ! 0"
    "\<forall>ti<length t - 1. ti + 1 < length u1 \<and> ?R ti (u ! ti) (u ! (ti + 1))"
    by auto
  moreover have "u1 ! 0 = v'" using u1' tne by (simp add: zeros_def)
  ultimately show ?thesis using lhs len1 tne v' t_0
    by (intro exI [of _ lhs]) auto
qed


lemma np_add_same_length: "length a = length b \<Longrightarrow> np_add a b = Inr (map2 (+) a b)"
  by (simp add: np_add_def)

lemma broadcast_to_same: "length v = n \<Longrightarrow> broadcast_to n v = Inr v"
  by (simp add: broadcast_to_def)

text \<open>The two example solvers meet the contract, and agree on the matrix of the heat problem.\<close>

lemma matmul_vec_2x2:
  "matmul_vec [[a, b], [c, d]] [x, y] = Inr [a * x + b * y, c * x + d * y]"
  by (simp add: matmul_vec_def)

lemma cramer_rows:
  fixes a b c d e f :: real
  assumes "D \<noteq> 0" and "D = a * d - b * c"
  shows "a * ((e * d - b * f) / D) + b * ((a * f - e * c) / D) = e"
    and "c * ((e * d - b * f) / D) + d * ((a * f - e * c) / D) = f"
proof -
  have "a * ((e * d - b * f) / D) + b * ((a * f - e * c) / D) =
        (a * (e * d - b * f) + b * (a * f - e * c)) / D"
    by (simp add: add_divide_distrib)
  also have "a * (e * d - b * f) + b * (a * f - e * c) = e * D"
    unfolding assms(2) by (simp add: algebra_simps)
  finally show "a * ((e * d - b * f) / D) + b * ((a * f - e * c) / D) = e"
    using assms(1) by simp
  have "c * ((e * d - b * f) / D) + d * ((a * f - e * c) / D) =
        (c * (e * d - b * f) + d * (a * f - e * c)) / D"
    by (simp add: add_divide_distrib)
  also have "c * (e * d - b * f) + d * (a * f - e * c) = f * D"
    unfolding assms(2) by (simp add: algebra_simps)
  finally show "c * ((e * d - b * f) / D) + d * ((a * f - e * c) / D) = f"
    using assms(1) by simp
qed

lemma cramer2_Inr:
  "cramer2 M r = Inr x \<Longrightarrow>
   \<exists>a b c d e f. M = [[a, b], [c, d]] \<and> r = [e, f] \<and> a * d - b * c \<noteq> 0 \<and>
     x = [(e * d - b * f) / (a * d - b * c), (a * f - e * c) / (a * d - b * c)]"
  by (induction M r rule: cramer2.induct) (auto split: if_splits)

lemma cramer2_sound: "solver_sound cramer2"
  unfolding solver_sound_def
proof (intro allI impI)
  fix M r x assume "cramer2 M r = Inr x"
  from cramer2_Inr [OF this] obtain a b c d e f where
    M: "M = [[a, b], [c, d]]" and r: "r = [e, f]" and D: "a * d - b * c \<noteq> 0"
    and x: "x = [(e * d - b * f) / (a * d - b * c), (a * f - e * c) / (a * d - b * c)]"
    by blast
  show "length x = length r \<and> matmul_vec M x = Inr r"
    unfolding M r x matmul_vec_2x2
    using cramer_rows [OF D refl, of e f] by simp
qed

lemma gauss_rows:
  fixes a b c d e f :: real
  assumes "a \<noteq> 0" and "d - c / a * b \<noteq> 0" and "y = (f - c / a * e) / (d - c / a * b)"
  shows "a * ((e - b * y) / a) + b * y = e"
    and "c * ((e - b * y) / a) + d * y = f"
proof -
  show "a * ((e - b * y) / a) + b * y = e" using assms(1) by simp
  have "c * ((e - b * y) / a) + d * y = c / a * e + (d - c / a * b) * y"
    by (simp add: algebra_simps diff_divide_distrib)
  also have "(d - c / a * b) * y = f - c / a * e"
    unfolding assms(3) using assms(2) by simp
  finally show "c * ((e - b * y) / a) + d * y = f" by simp
qed

lemma gauss2_Inr:
  "gauss2 M r = Inr x \<Longrightarrow>
   \<exists>a b c d e f. M = [[a, b], [c, d]] \<and> r = [e, f] \<and> a \<noteq> 0 \<and> d - c / a * b \<noteq> 0 \<and>
     x = [(e - b * ((f - c / a * e) / (d - c / a * b))) / a, (f - c / a * e) / (d - c / a * b)]"
  by (induction M r rule: gauss2.induct) (auto simp: Let_def split: if_splits)

lemma gauss2_sound: "solver_sound gauss2"
  unfolding solver_sound_def
proof (intro allI impI)
  fix M r x assume "gauss2 M r = Inr x"
  from gauss2_Inr [OF this] obtain a b c d e f where
    M: "M = [[a, b], [c, d]]" and r: "r = [e, f]" and a: "a \<noteq> 0" and p: "d - c / a * b \<noteq> 0"
    and x: "x = [(e - b * ((f - c / a * e) / (d - c / a * b))) / a, (f - c / a * e) / (d - c / a * b)]"
    by blast
  show "length x = length r \<and> matmul_vec M x = Inr r"
    unfolding M r x matmul_vec_2x2
    using gauss_rows [OF a p refl] by simp
qed



text \<open>
  C5. Whenever \<open>implicit_euler\<close> returns \<open>u\<close>: column 0 is the initial condition
  \<open>f_fun(x_array, t[0])\<close> (broadcast to the grid), and for every \<open>ti\<close> from 0 to
  \<open>len(t) - 2\<close> column \<open>ti + 1\<close> is what the linear solve returns for the matrix
  \<open>lhs = I - C * A\<close> and the right-hand side \<open>u[:, ti] + C * b\<close>, the sparse solve when the
  flag \<open>sparse\<close> is set and the dense one otherwise. With capabilities that meet their
  contract and \<open>b\<close> of the length of the grid, \<open>(I - C * A) u[:, ti+1] = u[:, ti] + C * b\<close>.
\<close>

theorem implicit_euler_columns:
  assumes "construct_matrix bvp = (A, b, x_array)"
    and "implicit_euler solve spsolve bvp t = Inr u"
  shows "\<exists>lhs. mat_sub (eye (shape bvp)) (mat_scale (C bvp) A) = Inr lhs \<and>
     length u = length t \<and>
     broadcast_to (length x_array) (f_fun bvp x_array (t ! 0)) = Inr (u ! 0) \<and>
     (\<forall>ti. ti + 1 < length t \<longrightarrow>
        (\<exists>r v. np_add (u ! ti) (map ((*) (C bvp)) b) = Inr r \<and>
           (if sparse bvp then spsolve lhs r else solve lhs r) = Inr v \<and>
           broadcast_to (length x_array) v = Inr (u ! (ti + 1)) \<and>
           (solver_sound solve \<and> solver_sound spsolve \<and> length b = length x_array \<longrightarrow>
              u ! (ti + 1) = v \<and>
              matmul_vec lhs (u ! (ti + 1)) = Inr (map2 (+) (u ! ti) (map ((*) (C bvp)) b)))))"
proof -
  let ?nx = "length x_array" and ?rhs = "map ((*) (C bvp)) b"
  from implicit_euler_Inr [OF assms] obtain lhs where
    lhs: "mat_sub (eye (shape bvp)) (mat_scale (C bvp) A) = Inr lhs"
    and len: "length u = length t" and tne: "t \<noteq> []"
    and c0: "broadcast_to ?nx (f_fun bvp x_array (t ! 0)) = Inr (u ! 0)"
    and cols: "\<forall>ti. ti + 1 < length t \<longrightarrow>
        (\<exists>r v. np_add (u ! ti) ?rhs = Inr r \<and>
           (if sparse bvp then spsolve else solve) lhs r = Inr v \<and>
           broadcast_to ?nx v = Inr (u ! (ti + 1)))"
    by blast
  have collen: "length (u ! j) = ?nx" if "j < length t" for j
  proof (cases j)
    case 0
    then show ?thesis using c0 by (simp add: broadcast_to_length)
  next
    case (Suc i)
    with that cols obtain v where "broadcast_to ?nx v = Inr (u ! (i + 1))" by fastforce
    then show ?thesis using Suc by (simp add: broadcast_to_length)
  qed
  have step: "\<exists>r v. np_add (u ! ti) ?rhs = Inr r \<and>
           (if sparse bvp then spsolve lhs r else solve lhs r) = Inr v \<and>
           broadcast_to ?nx v = Inr (u ! (ti + 1)) \<and>
           (solver_sound solve \<and> solver_sound spsolve \<and> length b = ?nx \<longrightarrow>
              u ! (ti + 1) = v \<and> matmul_vec lhs (u ! (ti + 1)) = Inr (map2 (+) (u ! ti) ?rhs))"
    if ti: "ti + 1 < length t" for ti
  proof -
    from cols ti obtain r v where r: "np_add (u ! ti) ?rhs = Inr r"
      and v: "(if sparse bvp then spsolve else solve) lhs r = Inr v"
      and bc: "broadcast_to ?nx v = Inr (u ! (ti + 1))" by blast
    have v': "(if sparse bvp then spsolve lhs r else solve lhs r) = Inr v" using v by (simp split: if_splits)
    have "u ! (ti + 1) = v \<and> matmul_vec lhs (u ! (ti + 1)) = Inr (map2 (+) (u ! ti) ?rhs)"
      if snd: "solver_sound solve" "solver_sound spsolve" and lb: "length b = ?nx"
    proof -
      have "length (u ! ti) = ?nx" using collen [of ti] ti by simp
      then have r': "r = map2 (+) (u ! ti) ?rhs" and lr: "length r = ?nx"
        using r lb by (auto simp: np_add_same_length)
      from v snd have "length v = length r \<and> matmul_vec lhs v = Inr r"
        unfolding solver_sound_def by (auto split: if_splits)
      then show ?thesis using bc lr r' by (simp add: broadcast_to_same)
    qed
    with r v' bc show ?thesis by blast
  qed
  show ?thesis
    using lhs len c0 step by (intro exI [of _ lhs]) blast
qed

theorem implicit_euler_columns_witness:
  "construct_matrix heat2_bvp = ([[- 2, 1], [1, - 2]], [1, 0], [1 / 3, 2 / 3]) \<and>
   implicit_euler cramer2 gauss2 heat2_bvp [0, 1] = Inr [[0, 0], [4 / 15, 1 / 15]] \<and>
   solver_sound cramer2 \<and> solver_sound gauss2 \<and>
   (\<exists>lhs. mat_sub (eye 2) (mat_scale (1 / 2) [[- 2, 1], [1, - 2]]) = Inr lhs \<and>
      gauss2 lhs [1 / 2, 0] = Inr [4 / 15, 1 / 15] \<and>
      matmul_vec lhs [4 / 15, 1 / 15] = Inr [1 / 2, 0])"
proof -
  have cm: "construct_matrix heat2_bvp = ([[- 2, 1], [1, - 2]], [1, 0], [1 / 3, 2 / 3])"
    by (simp add: heat2_bvp_def)
  have run: "implicit_euler cramer2 gauss2 heat2_bvp [0, 1] = Inr [[0, 0], [4 / 15, 1 / 15]]"
    by (simp add: implicit_euler_def heat2_bvp_def mat_sub_def eye_def mat_scale_def zeros_def
        item_def py_index_def set_col_def broadcast_to_def for_range_def np_add_def Let_def
        eval_nat_numeral)
  from implicit_euler_columns [OF cm run] obtain lhs where
    lhs: "mat_sub (eye (shape heat2_bvp)) (mat_scale (C heat2_bvp) [[- 2, 1], [1, - 2]]) = Inr lhs"
    and step: "\<forall>ti. ti + 1 < length [0, 1 :: real] \<longrightarrow>
        (\<exists>r v. np_add ([[0, 0], [4 / 15, 1 / 15]] ! ti) (map ((*) (C heat2_bvp)) [1, 0]) = Inr r \<and>
           (if sparse heat2_bvp then gauss2 lhs r else cramer2 lhs r) = Inr v \<and>
           broadcast_to (length [1 / 3, 2 / 3 :: real]) v = Inr ([[0, 0], [4 / 15, 1 / 15]] ! (ti + 1)) \<and>
           (solver_sound cramer2 \<and> solver_sound gauss2 \<and> length [1, 0 :: real] = length [1 / 3, 2 / 3 :: real] \<longrightarrow>
              [[0, 0], [4 / 15, 1 / 15]] ! (ti + 1) = v \<and>
              matmul_vec lhs ([[0, 0], [4 / 15, 1 / 15]] ! (ti + 1)) =
                Inr (map2 (+) ([[0, 0], [4 / 15, 1 / 15]] ! ti) (map ((*) (C heat2_bvp)) [1, 0]))))"
    by blast
  from step [rule_format, of 0] cramer2_sound gauss2_sound
  have "gauss2 lhs [1 / 2, 0] = Inr [4 / 15, 1 / 15] \<and> matmul_vec lhs [4 / 15, 1 / 15] = Inr [1 / 2, 0]"
    by (auto simp: heat2_bvp_def np_add_def)
  with lhs cm run cramer2_sound gauss2_sound show ?thesis
    by (auto simp: heat2_bvp_def)
qed




lemma imex_euler_reaction_run:
  "imex_euler cramer2 react2_bvp [0, 1, 2] = Inr [[0, 0], [4 / 15, 1 / 15], [4 / 9, 13 / 90]]"
  by (simp add: imex_euler_def react2_bvp_def heat2_bvp_def mat_sub_def eye_def mat_scale_def
      zeros_def item_def py_index_def set_col_def broadcast_to_def for_range_def np_add_def
      Let_def eval_nat_numeral)




section \<open>Properties of the shooting solver\<close>

text \<open>Indexing that returns, and a loop that writes entry \<open>i\<close> in iteration \<open>i\<close>.\<close>

lemma item_last_Inr: "item xs (- 1) = Inr x \<Longrightarrow> xs \<noteq> [] \<and> x = last xs"
proof -
  assume a: "item xs (- 1) = Inr x"
  then have ne: "xs \<noteq> []" by (auto simp: item_def py_index_def Let_def split: if_splits)
  then have "nat (int (length xs) - 1) = length xs - 1" by (cases xs) auto
  with a ne show ?thesis
    by (auto simp: item_def py_index_def Let_def last_conv_nth split: if_splits)
qed

lemma item_nat_Inr: "item xs (int i) = Inr x \<Longrightarrow> i < length xs \<and> x = xs ! i"
  by (auto simp: item_def py_index_def Let_def split: if_splits)

lemma item2_last_Inr:
  "item2_last y i = Inr v \<Longrightarrow> y \<noteq> [] \<and> i < length (last y) \<and> v = last y ! i"
  by (auto simp: item2_last_def split: sum.splits dest!: item_last_Inr item_nat_Inr)

lemma entry_loop:
  assumes body: "\<And>i c c'. body i c = Inr c' \<Longrightarrow> \<exists>v. R i v \<and> c' = c[i := v]"
  shows "for_iter 0 k body c0 = Inr c \<Longrightarrow> k \<le> length c0 \<Longrightarrow>
     length c = length c0 \<and> (\<forall>i<k. R i (c ! i)) \<and> (\<forall>j. k \<le> j \<longrightarrow> c ! j = c0 ! j)"
proof (induction k arbitrary: c)
  case 0
  then show ?case by simp
next
  case (Suc k)
  from for_iter_Suc_Inr [OF Suc.prems(1)] obtain ck where
    ck: "for_iter 0 k body c0 = Inr ck" and b: "body k ck = Inr c" by auto
  from Suc.prems(2) have "k \<le> length c0" by simp
  from Suc.IH [OF ck this] have len: "length ck = length c0"
    and old: "\<forall>i<k. R i (ck ! i)"
    and rest: "\<forall>j. k \<le> j \<longrightarrow> ck ! j = c0 ! j" by auto
  from body [OF b] obtain v where v: "R k v" and c: "c = ck[k := v]" by auto
  have "R i (c ! i)" if "i < Suc k" for i
  proof (cases "i = k")
    case True
    then show ?thesis using v c len Suc.prems(2) by simp
  next
    case False
    with that have "i < k" by simp
    then show ?thesis using old c by simp
  qed
  then show ?case using c len rest by simp
qed

lemma shooting_root_Inr:
  assumes "shooting_root ode phase_function ode_solver function_args initial_guess =
      Some (Inr conditions)"
  shows "initial_guess \<noteq> [] \<and>
     (\<exists>t y. ode_solver ode (PyInt 0) (NdArray (butlast initial_guess))
               (Num (NpFloat (last initial_guess))) function_args = Some (Inr (t, y)) \<and>
        length conditions = length initial_guess \<and>
        (\<forall>i<length initial_guess - 1.
           y \<noteq> [] \<and> i < length (last y) \<and>
           conditions ! i = last y ! i - butlast initial_guess ! i) \<and>
        phase_function 0 (butlast initial_guess) = Inr (last conditions))"
proof -
  let ?Y0 = "butlast initial_guess" and ?n = "length initial_guess"
  from assms obtain T where T: "item initial_guess (- 1) = Inr T"
    by (auto simp: shooting_root_def split: sum.splits)
  from item_last_Inr [OF T] have ne: "initial_guess \<noteq> []" and T': "T = last initial_guess" by auto
  from assms T obtain t y c pv where
    solve: "ode_solver ode (PyInt 0) (NdArray ?Y0) (Num (NpFloat T)) function_args = Some (Inr (t, y))"
    and loop: "for_iter 0 (?n - 1)
       (\<lambda>i conditions. case item2_last y i of Inl e \<Rightarrow> Inl e
          | Inr yTi \<Rightarrow> Inr (conditions[i := yTi - ?Y0 ! i])) (replicate ?n 0) = Inr c"
    and ph: "phase_function 0 ?Y0 = Inr pv"
    and res: "conditions = c[?n - 1 := pv]"
    by (auto simp: shooting_root_def for_range_def Let_def split: sum.splits option.splits)
  let ?body = "\<lambda>i conditions. case item2_last y i of Inl e \<Rightarrow> Inl e
        | Inr yTi \<Rightarrow> Inr (conditions[i := yTi - ?Y0 ! i])"
  let ?R = "\<lambda>i v. y \<noteq> [] \<and> i < length (last y) \<and> v = last y ! i - ?Y0 ! i"
  have body: "\<exists>v. ?R i v \<and> c' = c[i := v]" if "?body i c = Inr c'" for i c c'
    using that by (auto split: sum.splits dest!: item2_last_Inr)
  from entry_loop [of ?body ?R, OF body loop] have len: "length c = ?n"
    and ent: "\<forall>i<?n - 1. y \<noteq> [] \<and> i < length (last y) \<and> c ! i = last y ! i - ?Y0 ! i"
    by auto
  have cne: "conditions \<noteq> []" and clen: "length conditions = ?n" using res len ne by auto
  have "last conditions = conditions ! (?n - 1)" using cne clen by (simp add: last_conv_nth)
  then have "last conditions = pv" using res len ne by simp
  moreover have "\<forall>i<?n - 1. conditions ! i = c ! i" using res by simp
  ultimately show ?thesis using ne solve len ent ph res T' by auto
qed

text \<open>
  C3. Whenever \<open>shooting_root\<close> returns a residual for a candidate vector, the candidate
  is not empty, the IVP solver has returned for \<open>Y0\<close> (all but the last entry), \<open>t0 = 0\<close>
  and \<open>tf = T\<close> (the last entry), the residual has the length of the candidate, its entry
  \<open>i\<close> for every state component \<open>i\<close> is \<open>y[-1, i] - Y0[i]\<close> for the last state \<open>y[-1]\<close> the
  solver returned, and its last entry is \<open>phase_function(0, Y0)\<close>.
\<close>

theorem shooting_root_residual:
  assumes "shooting_root ode phase_function ode_solver function_args initial_guess =
      Some (Inr conditions)"
  shows "initial_guess \<noteq> [] \<and>
     (\<exists>t y. ode_solver ode (PyInt 0) (NdArray (butlast initial_guess))
               (Num (NpFloat (last initial_guess))) function_args = Some (Inr (t, y)) \<and>
        length conditions = length initial_guess \<and>
        (\<forall>i<length initial_guess - 1.
           y \<noteq> [] \<and> i < length (last y) \<and>
           conditions ! i = last y ! i - butlast initial_guess ! i) \<and>
        phase_function 0 (butlast initial_guess) = Inr (last conditions))"
  using shooting_root_Inr [OF assms] .

theorem shooting_root_residual_witness:
  "shooting_root decay (\<lambda>t y. decay_phase t y []) solve_ode_default NoArgs [1, 1 / 50] =
     Some (Inr [- (12672849082622311 / 640000000000000000), - 1]) \<and>
   (\<exists>t y. solve_ode_default decay (PyInt 0) (NdArray [1]) (Num (NpFloat (1 / 50))) NoArgs =
             Some (Inr (t, y)) \<and>
      last y ! 0 - 1 = - (12672849082622311 / 640000000000000000)) \<and>
   decay_phase 0 [1] [] = Inr (- 1)"
proof -
  have run: "shooting_root decay (\<lambda>t y. decay_phase t y []) solve_ode_default NoArgs [1, 1 / 50] =
     Some (Inr [- (12672849082622311 / 640000000000000000), - 1])"
    by (simp add: shooting_root_def item_def py_index_def solve_ode_default_def
        solve_ode_def bind_args_def decay_def METHODS_def check_tf_def check_n_max_def
        check_deltat_max_def solve_loop.simps rk4_step_def axpy_def for_range_def
        item2_last_def decay_phase_def Let_def)
  from shooting_root_residual [OF run] run show ?thesis by fastforce
qed

text \<open>The tolerance check against zeros, and the runs of \<open>shooting\<close> past its preconditions.\<close>

lemma allclose_zeros:
  "length res = n \<Longrightarrow> allclose res (replicate n 0) atol = list_all (\<lambda>c. \<bar>c\<bar> \<le> atol) res"
  by (induction res arbitrary: n) (auto simp: allclose_def)

lemma shooting_root_length:
  "shooting_root ode phase ode_solver function_args sol = Some (Inr res) \<Longrightarrow>
   sol \<noteq> [] \<and> length res = length sol"
  using shooting_root_Inr [of ode phase ode_solver function_args sol res] by blast

lemma list_ex_not_all:
  "list_ex (\<lambda>c. atol < \<bar>c\<bar>) res = (\<not> list_all (\<lambda>c. \<bar>c\<bar> \<le> atol) res)"
  for atol :: real
  by (induction res) auto

lemma item_last: "xs \<noteq> [] \<Longrightarrow> item xs (- 1) = Inr (last xs)"
proof -
  assume ne: "xs \<noteq> []"
  then have "nat (int (length xs) - 1) = length xs - 1" by (cases xs) auto
  with ne show ?thesis by (simp add: item_def py_index_def Let_def last_conv_nth)
qed

lemma shooting_checked:
  assumes "solve_ode ode (PyInt 0) (all_but_last U0) PyNone (Num (PyInt 1)) ''RK4''
             (Num (PyFloat (1 / 100))) function_args = Some (Inr probe)"
    and "bind_phase phase_function function_args = Inr phase"
    and "phase 0 (elems (all_but_last U0)) = Inr v"
    and "root_solver (shooting_root ode phase ode_solver function_args) U0 = Some (Inr sol)"
    and res: "shooting_root ode phase ode_solver function_args sol = Some (Inr res)"
  shows "shooting U0 ode phase_function ode_solver root_solver atol function_args =
     (if \<not> list_all (\<lambda>c. \<bar>c\<bar> \<le> atol) res
      then Some (Inl (NotConverged res (butlast sol) (last sol)))
      else if last sol \<le> 0 then Some (Inl (ValueError ''The time period is not positive.''))
      else Some (Inr (butlast sol, last sol)))"
proof -
  from shooting_root_length [OF res] have ne: "sol \<noteq> []" and len: "length res = length sol"
    by auto
  show ?thesis
    unfolding shooting_def
    by (simp add: assms item_last [OF ne] allclose_zeros [OF len] Let_def)
qed

lemma shooting_Inr:
  assumes "shooting U0 ode phase_function ode_solver root_solver atol function_args =
      Some (Inr (X0, T))"
  shows "0 < T \<and>
     (\<exists>phase res. bind_phase phase_function function_args = Inr phase \<and>
        shooting_root ode phase ode_solver function_args (X0 @ [T]) = Some (Inr res) \<and>
        length res = length X0 + 1 \<and> list_all (\<lambda>c. \<bar>c\<bar> \<le> atol) res)"
proof -
  from assms obtain phase sol res where
    ph: "bind_phase phase_function function_args = Inr phase"
    and T: "item sol (- 1) = Inr T" and X0: "X0 = butlast sol"
    and res: "shooting_root ode phase ode_solver function_args sol = Some (Inr res)"
    and close: "allclose res (replicate (length sol) 0) atol" and pos: "0 < T"
    by (auto simp: shooting_def Let_def split: sum.splits option.splits if_splits)
  from item_last_Inr [OF T] have ne: "sol \<noteq> []" and T': "T = last sol" by auto
  then have sol: "sol = X0 @ [T]" using X0 by simp
  from shooting_root_length [OF res] have len: "length res = length sol" by simp
  show ?thesis
    using pos ph res close len sol allclose_zeros [OF len, of atol] by auto
qed

text \<open>
  C4. When \<open>shooting\<close> returns \<open>(X0, T)\<close>, \<open>T\<close> is positive and the residual at
  \<open>X0 @ [T]\<close> is within \<open>atol\<close> of zero in every entry. Past the preconditions, with the
  root finder returning \<open>sol\<close> and the residual evaluated at \<open>sol\<close>: an entry beyond
  \<open>atol\<close> raises the convergence error, which carries the residual, \<open>X0\<close> and \<open>T\<close>; a
  residual within \<open>atol\<close> and \<open>T \<le> 0\<close> raises the error of the non-positive period; and
  otherwise \<open>(X0, T)\<close> is returned. The checks run in this order, so a solution with
  \<open>T \<le> 0\<close> is never returned.
\<close>

theorem shooting_postconditions:
  "(shooting U0 ode phase_function ode_solver root_solver atol function_args =
      Some (Inr (X0, T)) \<longrightarrow>
    0 < T \<and>
    (\<exists>phase res. bind_phase phase_function function_args = Inr phase \<and>
       shooting_root ode phase ode_solver function_args (X0 @ [T]) = Some (Inr res) \<and>
       length res = length X0 + 1 \<and> list_all (\<lambda>c. \<bar>c\<bar> \<le> atol) res)) \<and>
   (solve_ode ode (PyInt 0) (all_but_last U0) PyNone (Num (PyInt 1)) ''RK4''
      (Num (PyFloat (1 / 100))) function_args = Some (Inr probe) \<and>
    bind_phase phase_function function_args = Inr phase \<and>
    phase 0 (elems (all_but_last U0)) = Inr v \<and>
    root_solver (shooting_root ode phase ode_solver function_args) U0 = Some (Inr sol) \<and>
    shooting_root ode phase ode_solver function_args sol = Some (Inr res) \<longrightarrow>
    (list_ex (\<lambda>c. atol < \<bar>c\<bar>) res \<longrightarrow>
       shooting U0 ode phase_function ode_solver root_solver atol function_args =
         Some (Inl (NotConverged res (butlast sol) (last sol)))) \<and>
    (list_all (\<lambda>c. \<bar>c\<bar> \<le> atol) res \<and> last sol \<le> 0 \<longrightarrow>
       shooting U0 ode phase_function ode_solver root_solver atol function_args =
         Some (Inl (ValueError ''The time period is not positive.''))) \<and>
    (list_all (\<lambda>c. \<bar>c\<bar> \<le> atol) res \<and> 0 < last sol \<longrightarrow>
       shooting U0 ode phase_function ode_solver root_solver atol function_args =
         Some (Inr (butlast sol, last sol))))"
  using shooting_Inr [of U0 ode phase_function ode_solver root_solver atol function_args X0 T]
    shooting_checked [of ode U0 function_args probe phase_function phase v root_solver
      ode_solver sol res atol]
  by (auto simp: list_ex_not_all)

text \<open>
  Runs of \<open>shooting\<close>: a periodic orbit found, a residual off zero, a non-positive period
  with a solver that accepts it and with the default solver (whose own check of \<open>tf\<close>
  raises first, while the residual is evaluated), and an initial guess given as a list,
  as in the docstring (the probe of line 202 rejects \<^verbatim>\<open>U0[:-1]\<close>, which is not an array).
\<close>

lemmas run_defs = shooting_def shooting_root_def item_def py_index_def solve_ode_default_def
  solve_ode_def bind_args_def bind_phase_def METHODS_def check_tf_def check_n_max_def
  check_deltat_max_def solve_loop.simps rk4_step_def axpy_def for_range_def item2_last_def
  allclose_def keep_guess_def frozen_solver_def Let_def

lemma shooting_still_run:
  "shooting (NdArray [1, 1 / 50]) still still_phase solve_ode_default keep_guess (1 / 100000000)
     NoArgs = Some (Inr ([1], 1 / 50))"
  by (simp add: run_defs still_def still_phase_def)

lemma shooting_decay_run:
  "shooting (NdArray [1, 1 / 50]) decay decay_phase solve_ode_default keep_guess (1 / 100000000)
     NoArgs =
   Some (Inl (NotConverged [- (12672849082622311 / 640000000000000000), - 1] [1] (1 / 50)))"
  by (simp add: run_defs decay_def decay_phase_def)

lemma shooting_frozen_run:
  "shooting (NdArray [1, - 1]) still still_phase frozen_solver keep_guess (1 / 100000000)
     NoArgs = Some (Inl (ValueError ''The time period is not positive.''))"
  by (simp add: run_defs still_def still_phase_def)

lemma shooting_default_nonpositive_run:
  "shooting (NdArray [1, - 1]) still still_phase solve_ode_default keep_guess (1 / 100000000)
     NoArgs = Some (Inl (ValueError ''tf must be greater than t0.''))"
  by (simp add: run_defs still_def still_phase_def)

lemma shooting_list_guess_run:
  "shooting (PyList [1, 1 / 50]) still still_phase solve_ode_default keep_guess (1 / 100000000)
     NoArgs = Some (Inl (InputError ''The initial guess, U0, is not of the correct form.''))"
  by (simp add: run_defs still_def still_phase_def)


theorem shooting_postconditions_witness:
  "shooting (NdArray [1, 1 / 50]) still still_phase solve_ode_default keep_guess (1 / 100000000)
     NoArgs = Some (Inr ([1], 1 / 50)) \<and>
   (\<exists>res. shooting_root still (\<lambda>t x. still_phase t x []) solve_ode_default NoArgs
             ([1] @ [1 / 50]) = Some (Inr res) \<and>
      list_all (\<lambda>c. \<bar>c\<bar> \<le> 1 / 100000000) res) \<and>
   shooting (NdArray [1, 1 / 50]) decay decay_phase solve_ode_default keep_guess (1 / 100000000)
     NoArgs =
     Some (Inl (NotConverged [- (12672849082622311 / 640000000000000000), - 1] [1] (1 / 50))) \<and>
   shooting (NdArray [1, - 1]) still still_phase frozen_solver keep_guess (1 / 100000000)
     NoArgs = Some (Inl (ValueError ''The time period is not positive.''))"
proof -
  have run: "shooting (NdArray [1, 1 / 50]) still still_phase solve_ode_default keep_guess
      (1 / 100000000) NoArgs = Some (Inr ([1], 1 / 50))"
    by (simp add: run_defs still_def still_phase_def)
  have ph: "bind_phase still_phase NoArgs = Inr (\<lambda>t x. still_phase t x [])"
    by (simp add: bind_phase_def)
  from shooting_postconditions [of "NdArray [1, 1 / 50]" still still_phase solve_ode_default
      keep_guess "1 / 100000000" NoArgs "[1]" "1 / 50"] run
  obtain phase res where "bind_phase still_phase NoArgs = Inr phase"
    and r: "shooting_root still phase solve_ode_default NoArgs ([1] @ [1 / 50]) = Some (Inr res)"
    and a: "list_all (\<lambda>c. \<bar>c\<bar> \<le> 1 / 100000000) res"
    by blast
  with ph have "phase = (\<lambda>t x. still_phase t x [])" by simp
  with r a have "\<exists>res. shooting_root still (\<lambda>t x. still_phase t x []) solve_ode_default NoArgs
             ([1] @ [1 / 50]) = Some (Inr res) \<and>
      list_all (\<lambda>c. \<bar>c\<bar> \<le> 1 / 100000000) res"
    by blast
  with run shooting_decay_run shooting_frozen_run show ?thesis by blast
qed

end
